theory Spec2Isabelle
  imports Main
begin

section \<open>Python values and exceptions\<close>

text \<open>
  The values that occur in the \<open>d3dx_ini\<close> table of \<open>ModelImporterConfig\<close> and as runtime
  setting values: \<open>None\<close>, booleans, integers, floats (a float is carried by its \<open>repr\<close>,
  the text that \<open>str\<close> gives for it), strings, and dictionaries with string keys (insertion
  ordered, keys distinct in a real dictionary).
\<close>

datatype pyval =
    PNone
  | PBool bool
  | PInt int
  | PFloat string
  | PStr string
  | PDict "(string \<times> pyval) list"

text \<open>
  A pathlib path on Windows, as parsed: drive, root, and the components below the anchor.
  The filesystem below is keyed by such paths; two spellings of one file (case, relative
  against absolute, links) are different keys.
\<close>

datatype path = Path (drive: string) (root: string) (parts: "string list")

text \<open>
  The exceptions of the program. The \<open>ValueError\<close>s raised by
  \<open>ModelImporterPackage\<close> are kept apart by what their message says:
  \<^item> \<open>InvalidPath\<close>: \<^verbatim>\<open>ValueError('Game folder is not a valid path!')\<close>
  \<^item> \<open>PathNotFound\<close>: \<^verbatim>\<open>ValueError('Game folder does not exist!')\<close>
  \<^item> \<open>NotADirectory\<close>: \<^verbatim>\<open>ValueError('Game folder is not a directory!')\<close>
  \<^item> \<open>MissingSetting name\<close>: \<^verbatim>\<open>ValueError(f'Config is missing {setting_name} setting!')\<close>
  \<^item> \<open>MissingSettingValue section option key\<close>:
    \<^verbatim>\<open>ValueError(f'Config is missing value for section `{section}` option `{option}` key `{key}')\<close>
  \<^item> \<open>IniWriteFailure section option value cause\<close>:
    \<^verbatim>\<open>ValueError(f'Failed to set section {section} option {option} to {value}: {str(e)}')\<close>
  \<^item> \<open>CorruptInstallation name\<close>: \<^verbatim>\<open>ValueError(f'Missing critical file: {ini_path.name}!')\<close>
  The others are the built-in exceptions of Python and its standard library;
  \<open>NoneTypeError\<close> stands for the \<open>AttributeError\<close> or \<open>TypeError\<close> of using \<open>None\<close> as a
  path, \<open>OtherError\<close> for whatever a game integration raises.
\<close>

datatype error =
    InvalidPath
  | PathNotFound
  | NotADirectory
  | MissingSetting string
  | MissingSettingValue string string pyval
  | IniWriteFailure string string pyval error
  | CorruptInstallation string
  | KeyError pyval
  | TypeError
  | IndexError
  | NoneTypeError
  | FileNotFoundError path
  | PermissionError path
  | FileExistsError path
  | SameFileError path
  | NotImplementedError
  | OtherError string

section \<open>Paths and the filesystem\<close>

definition is_absolute :: "path \<Rightarrow> bool" where
  \<comment> \<open>\<open>PureWindowsPath.is_absolute\<close>: both a drive and a root.\<close>
  "is_absolute p \<longleftrightarrow> drive p \<noteq> [] \<and> root p \<noteq> []"

definition name_of :: "path \<Rightarrow> string" where
  \<comment> \<open>\<open>Path.name\<close>: the last component, the empty string when there is none.\<close>
  "name_of p = (case parts p of [] \<Rightarrow> [] | _ \<Rightarrow> last (parts p))"

definition child :: "path \<Rightarrow> string \<Rightarrow> path" where
  \<comment> \<open>\<open>p / n\<close> for a single component \<open>n\<close>; \<open>p / ''\<close> is \<open>p\<close>.\<close>
  "child p n = (if n = [] then p else Path (drive p) (root p) (parts p @ [n]))"

definition parent :: "path \<Rightarrow> path" where
  "parent p = Path (drive p) (root p) (butlast (parts p))"

definition joinpath :: "path \<Rightarrow> path \<Rightarrow> path" where
  \<comment> \<open>\<open>p / q\<close> for a path \<open>q\<close>: a drive of its own or a root makes \<open>q\<close> win.\<close>
  "joinpath p q =
     (if drive q \<noteq> [] \<and> drive q \<noteq> drive p then q
      else if root q \<noteq> [] then Path (drive p) (root q) (parts q)
      else Path (drive p) (root p) (parts p @ parts q))"

datatype node = File string | Dir

type_synonym filesystem = "path \<rightharpoonup> node"

definition exists :: "filesystem \<Rightarrow> path \<Rightarrow> bool" where
  "exists fs p \<longleftrightarrow> fs p \<noteq> None"

definition is_dir :: "filesystem \<Rightarrow> path \<Rightarrow> bool" where
  "is_dir fs p \<longleftrightarrow> fs p = Some Dir"

definition copy2 :: "filesystem \<Rightarrow> path \<Rightarrow> path \<Rightarrow> error + filesystem" where
  \<comment> \<open>\<open>shutil.copy2(src, dst)\<close>: a directory as destination receives the file under the
      source's name; the same file on both sides, a missing or directory source and an
      unwritable destination raise.\<close>
  "copy2 fs src dst =
     (let target = (if is_dir fs dst then child dst (name_of src) else dst) in
      if exists fs src \<and> target = src then Inl (SameFileError src)
      else case fs src of
          None \<Rightarrow> Inl (FileNotFoundError src)
        | Some Dir \<Rightarrow> Inl (PermissionError src)
        | Some (File content) \<Rightarrow>
            (case fs target of
               Some Dir \<Rightarrow> Inl (PermissionError target)
             | Some (File _) \<Rightarrow> Inr (fs(target \<mapsto> File content))
             | None \<Rightarrow>
                 if is_dir fs (parent target) then Inr (fs(target \<mapsto> File content))
                 else Inl (FileNotFoundError target)))"

definition verify_path :: "filesystem \<Rightarrow> path \<Rightarrow> error + filesystem" where
  \<comment> \<open>Modelled from the spec: \<open>Paths.verify_path\<close> of \<open>core.path_manager\<close> is not among the
      sources; section 4.2 says that \<open>backup\<close> "ensures the backup root directory exists".
      A file in the way cannot become a directory.\<close>
  "verify_path fs p =
     (case fs p of
        None \<Rightarrow> Inr (fs(p \<mapsto> Dir))
      | Some Dir \<Rightarrow> Inr fs
      | Some (File _) \<Rightarrow> Inl (FileExistsError p))"

section \<open>Events, configuration and the state of the program\<close>

datatype event =
    InitializeInstallation
  | StatusUpdate string
  | OpenSettings
  | StartAndInject path
  | ShowError bool string string string
  | Update bool bool bool "string list"

text \<open>What the program does to the outside, in the order it does it.\<close>

datatype effect =
    Fire event
  | Call event
  | VerifyPath path
  | Copy2 path path
  | MoveContents path path
  | Write path

datatype SettingType = Constant | Bool | Map

text \<open>
  \<open>ModelImporterConfig\<close>. The folders are held as the paths pathlib parses them to;
  \<open>d3dx_ini\<close> is setting name, section, option, value, each level in insertion order.
\<close>

record ModelImporterConfig =
  package_name :: string
  importer_folder :: path
  game_folder :: path
  launcher_theme :: string
  overwrite_ini :: bool
  d3dx_ini :: "(string \<times> (string \<times> (string \<times> pyval) list) list) list"

record MigotoConfig =
  debug_logging :: bool
  mute_warnings :: bool
  enable_hunting :: bool
  dump_shaders :: bool

text \<open>
  The mutable state: the filesystem, the trace of effects, \<open>self.backups_path\<close>, the active
  configuration (\<open>Config.Active.Importer\<close>, \<open>Config.Active.Migoto\<close>) and the formatted time
  that \<open>datetime.now().strftime('%Y-%m-%d %H-%M-%S')\<close> returns.
\<close>

record world =
  fs :: filesystem
  trace :: "effect list"
  backups_path :: "path option"
  Importer :: ModelImporterConfig
  Migoto :: MigotoConfig
  now :: string

type_synonym 'a prog = "world \<Rightarrow> (error + 'a) \<times> world"

definition and_then :: "'a prog \<Rightarrow> ('a \<Rightarrow> 'b prog) \<Rightarrow> 'b prog" where
  \<comment> \<open>One statement after another: an exception of the first skips the second.\<close>
  "and_then m f w = (case m w of (Inl e, w') \<Rightarrow> (Inl e, w') | (Inr x, w') \<Rightarrow> f x w')"

definition try_except :: "'a prog \<Rightarrow> (error \<Rightarrow> 'a prog) \<Rightarrow> 'a prog" where
  \<comment> \<open>\<^verbatim>\<open>try: m  except Exception as e: h e\<close>\<close>
  "try_except m h w = (case m w of (Inl e, w') \<Rightarrow> h e w' | (Inr x, w') \<Rightarrow> (Inr x, w'))"

definition emit :: "effect \<Rightarrow> world \<Rightarrow> world" where
  "emit x w = w\<lparr>trace := trace w @ [x]\<rparr>"

definition fire :: "event \<Rightarrow> unit prog" where
  \<comment> \<open>Modelled from the spec: \<open>Events.Fire\<close> of \<open>core.event_manager\<close> is not among the
      sources; section 5 makes these requests "fire-and-forget signals to external
      subsystems". The signal is recorded and control returns.\<close>
  "fire ev w = (Inr (), emit (Fire ev) w)"

definition importer_path :: "path \<Rightarrow> ModelImporterConfig \<Rightarrow> path" where
  \<comment> \<open>The property \<open>importer_path\<close>; the first argument is \<open>Paths.App.Root\<close>.\<close>
  "importer_path app_root c =
     (if is_absolute (importer_folder c) then importer_folder c
      else joinpath app_root (importer_folder c))"

section \<open>Game folder validation\<close>

definition validate_game_path :: "filesystem \<Rightarrow> path \<Rightarrow> error + path" where
  "validate_game_path files game_path =
     (if \<not> is_absolute game_path then Inl InvalidPath
      else if \<not> exists files game_path then Inl PathNotFound
      else if \<not> is_dir files game_path then Inl NotADirectory
      else Inr game_path)"

section \<open>Backup and restore\<close>

definition new_package :: "world \<Rightarrow> world" where
  \<comment> \<open>\<open>__init__\<close>: \<open>self.backups_path = None\<close>.\<close>
  "new_package w = w\<lparr>backups_path := None\<rparr>"

definition initialize_backup :: "path \<Rightarrow> string \<Rightarrow> world \<Rightarrow> world" where
  \<comment> \<open>The arguments are \<open>Paths.App.Backups\<close> and \<open>self.metadata.package_name\<close>.\<close>
  "initialize_backup app_backups pkg w =
     (let backup_name = pkg @ '' '' @ now w
      in w\<lparr>backups_path := Some (child app_backups backup_name)\<rparr>)"

definition backup :: "path \<Rightarrow> unit prog" where
  \<comment> \<open>With \<open>self.backups_path\<close> still \<open>None\<close>, \<open>Paths.verify_path(None)\<close> or, at the latest,
      \<open>None / file_path.name\<close> raises before \<open>shutil.copy2\<close> is called.\<close>
  "backup file_path w =
     (if \<not> exists (fs w) file_path then (Inr (), w)
      else case backups_path w of
          None \<Rightarrow> (Inl NoneTypeError, w)
        | Some bp \<Rightarrow>
            (let w1 = emit (VerifyPath bp) w in
             case verify_path (fs w1) bp of
               Inl e \<Rightarrow> (Inl e, w1)
             | Inr fs1 \<Rightarrow>
                 (let w2 = emit (Copy2 file_path (child bp (name_of file_path))) (w1\<lparr>fs := fs1\<rparr>) in
                  case copy2 (fs w2) file_path (child bp (name_of file_path)) of
                    Inl e \<Rightarrow> (Inl e, w2)
                  | Inr fs2 \<Rightarrow> (Inr (), w2\<lparr>fs := fs2\<rparr>))))"

definition restore :: "path \<Rightarrow> unit prog" where
  \<comment> \<open>With \<open>self.backups_path\<close> still \<open>None\<close>, \<open>None / file_path.name\<close> raises.\<close>
  "restore file_path w =
     (if \<not> exists (fs w) file_path then (Inr (), w)
      else case backups_path w of
          None \<Rightarrow> (Inl NoneTypeError, w)
        | Some bp \<Rightarrow>
            (let w1 = emit (Copy2 (child bp (name_of file_path)) file_path) w in
             case copy2 (fs w1) (child bp (name_of file_path)) file_path of
               Inl e \<Rightarrow> (Inl e, w1)
             | Inr fs1 \<Rightarrow> (Inr (), w1\<lparr>fs := fs1\<rparr>)))"

section \<open>Projecting settings onto the INI document\<close>

text \<open>
  \<open>IniHandler\<close> of \<open>core.utils.ini_handler\<close> is not among the sources: the program is
  modelled over any handler, given by the four operations the program calls on it
  (the constructor reading the text of the file, \<open>set_option\<close>, \<open>is_modified\<close>,
  \<open>to_string\<close>) over a document type \<open>'d\<close>.
\<close>

record 'd IniHandler =
  from_file :: "string \<Rightarrow> error + 'd"
  set_option :: "'d \<Rightarrow> string \<Rightarrow> string \<Rightarrow> pyval \<Rightarrow> error + 'd"
  is_modified :: "'d \<Rightarrow> bool"
  to_string :: "'d \<Rightarrow> string"

definition truthy :: "pyval \<Rightarrow> bool" where
  "truthy v =
     (case v of
        PNone \<Rightarrow> False
      | PBool b \<Rightarrow> b
      | PInt i \<Rightarrow> i \<noteq> 0
      | PFloat r \<Rightarrow> r \<noteq> ''0.0'' \<and> r \<noteq> ''-0.0''
      | PStr s \<Rightarrow> s \<noteq> []
      | PDict kvs \<Rightarrow> kvs \<noteq> [])"

definition str_index :: "string \<Rightarrow> int \<Rightarrow> error + pyval" where
  \<comment> \<open>\<open>s[i]\<close> on a string: negative indices count from the end.\<close>
  "str_index s i =
     (let n = int (length s); j = (if i < 0 then n + i else i)
      in if 0 \<le> j \<and> j < n then Inr (PStr [s ! nat j]) else Inl IndexError)"

definition subscript :: "pyval \<Rightarrow> pyval \<Rightarrow> error + pyval" where
  \<comment> \<open>\<open>values[key]\<close>. The keys of a dictionary here are strings, so no other key is found in
      it, and a dictionary as key is unhashable.\<close>
  "subscript vals key =
     (case vals of
        PDict kvs \<Rightarrow>
          (case key of
             PStr k \<Rightarrow> (case map_of kvs k of None \<Rightarrow> Inl (KeyError key) | Some v \<Rightarrow> Inr v)
           | PDict _ \<Rightarrow> Inl TypeError
           | _ \<Rightarrow> Inl (KeyError key))
      | PStr s \<Rightarrow>
          (case key of
             PInt i \<Rightarrow> str_index s i
           | PBool b \<Rightarrow> str_index s (if b then 1 else 0)
           | _ \<Rightarrow> Inl TypeError)
      | _ \<Rightarrow> Inl TypeError)"

definition select_value :: "SettingType \<Rightarrow> pyval \<Rightarrow> pyval \<Rightarrow> error + pyval \<times> pyval" where
  \<comment> \<open>The \<open>if\<close>/\<open>elif\<close> chain of the loop body: the key tried and the value found.\<close>
  "select_value setting_type setting_value vals =
     (case setting_type of
        Constant \<Rightarrow> Inr (PNone, vals)
      | Bool \<Rightarrow>
          (let key = PStr (if truthy setting_value then ''on'' else ''off'')
           in case subscript vals key of Inl e \<Rightarrow> Inl e | Inr v \<Rightarrow> Inr (key, v))
      | Map \<Rightarrow>
          (let key = setting_value
           in case subscript vals key of Inl e \<Rightarrow> Inl e | Inr v \<Rightarrow> Inr (key, v)))"

fun set_options ::
  "'d IniHandler \<Rightarrow> SettingType \<Rightarrow> pyval \<Rightarrow> string \<Rightarrow> (string \<times> pyval) list \<Rightarrow> 'd \<Rightarrow> error + 'd"
where
  "set_options h setting_type setting_value section [] ini = Inr ini"
| "set_options h setting_type setting_value section ((option, vals) # rest) ini =
     (case select_value setting_type setting_value vals of
        Inl e \<Rightarrow> Inl e
      | Inr (key, v) \<Rightarrow>
          if v = PNone then Inl (MissingSettingValue section option key)
          else (case set_option h ini section option v of
                  Inl e \<Rightarrow> Inl (IniWriteFailure section option v e)
                | Inr ini' \<Rightarrow> set_options h setting_type setting_value section rest ini'))"

fun set_sections ::
  "'d IniHandler \<Rightarrow> SettingType \<Rightarrow> pyval \<Rightarrow> (string \<times> (string \<times> pyval) list) list \<Rightarrow> 'd
    \<Rightarrow> error + 'd"
where
  "set_sections h setting_type setting_value [] ini = Inr ini"
| "set_sections h setting_type setting_value ((section, options) # rest) ini =
     (case set_options h setting_type setting_value section options ini of
        Inl e \<Rightarrow> Inl e
      | Inr ini' \<Rightarrow> set_sections h setting_type setting_value rest ini')"

definition set_default_ini_values ::
  "'d IniHandler \<Rightarrow> ModelImporterConfig \<Rightarrow> 'd \<Rightarrow> string \<Rightarrow> SettingType \<Rightarrow> pyval \<Rightarrow> error + 'd"
where
  \<comment> \<open>The document is the caller's local variable; it is dropped when this raises.\<close>
  "set_default_ini_values h config ini setting_name setting_type setting_value =
     (case map_of (d3dx_ini config) setting_name of
        None \<Rightarrow> Inl (MissingSetting setting_name)
      | Some settings \<Rightarrow> set_sections h setting_type setting_value settings ini)"

section \<open>The package and its collaborators\<close>

text \<open>
  What the methods of \<open>ModelImporterPackage\<close> take from outside the sources:
  \<open>Paths.App.Root\<close>, \<open>Paths.App.Backups\<close>, \<open>self.metadata.package_name\<close>,
  \<open>Config.Launcher.active_importer\<close>, \<open>self.downloaded_asset_path\<close>, the answer that
  \<open>Events.Call\<close> returns, \<open>Package.move_contents\<close>, and the three methods every game
  integration overrides.
\<close>

record integration =
  app_root :: path
  app_backups :: path
  metadata_package_name :: string
  active_importer :: string
  downloaded_asset_path :: path
  answer :: "event \<Rightarrow> bool"
  move_contents :: "path \<Rightarrow> path \<Rightarrow> filesystem \<Rightarrow> error + filesystem"
  validate_game_exe_path :: "path \<Rightarrow> path prog"
  autodetect_game_folder :: "path prog"
  initialize_game_launch :: "path \<Rightarrow> unit prog"

definition ret :: "'a \<Rightarrow> 'a prog" where
  "ret x w = (Inr x, w)"

definition raise :: "error \<Rightarrow> 'a prog" where
  "raise e w = (Inl e, w)"

definition lift :: "error + 'a \<Rightarrow> 'a prog" where
  \<comment> \<open>A computation that does not touch the state.\<close>
  "lift r w = (r, w)"

definition on_success :: "error + 'a \<Rightarrow> ('a \<Rightarrow> error + 'b) \<Rightarrow> error + 'b" where
  "on_success r f = (case r of Inl e \<Rightarrow> Inl e | Inr x \<Rightarrow> f x)"

definition call :: "integration \<Rightarrow> event \<Rightarrow> bool prog" where
  \<comment> \<open>Modelled from the spec: \<open>Events.Call\<close> of \<open>core.event_manager\<close> is not among the
      sources; section 4.4 has the user asked in a "synchronous confirm/cancel prompt". The
      call is recorded and returns the answer.\<close>
  "call env ev w = (Inr (answer env ev), emit (Call ev) w)"

definition read_text :: "filesystem \<Rightarrow> path \<Rightarrow> error + string" where
  \<comment> \<open>\<open>open(p, 'r')\<close> and reading all of it.\<close>
  "read_text files p =
     (case files p of
        None \<Rightarrow> Inl (FileNotFoundError p)
      | Some Dir \<Rightarrow> Inl (PermissionError p)
      | Some (File content) \<Rightarrow> Inr content)"

definition write_text :: "filesystem \<Rightarrow> path \<Rightarrow> string \<Rightarrow> error + filesystem" where
  \<comment> \<open>\<open>open(p, 'w')\<close> and writing the text.\<close>
  "write_text files p content =
     (case files p of
        Some Dir \<Rightarrow> Inl (PermissionError p)
      | Some (File _) \<Rightarrow> Inr (files(p \<mapsto> File content))
      | None \<Rightarrow>
          if is_dir files (parent p) then Inr (files(p \<mapsto> File content))
          else Inl (FileNotFoundError p))"

definition d3dx_ini_path :: "integration \<Rightarrow> world \<Rightarrow> path" where
  \<comment> \<open>\<open>Config.Active.Importer.importer_path / 'd3dx.ini'\<close>\<close>
  "d3dx_ini_path env w = child (importer_path (app_root env) (Importer w)) ''d3dx.ini''"

definition install_latest_version :: "integration \<Rightarrow> bool \<Rightarrow> unit prog" where
  "install_latest_version env clean =
     and_then (fire InitializeInstallation) (\<lambda>_.
     and_then (\<lambda>w. (Inr (), initialize_backup (app_backups env) (metadata_package_name env) w)) (\<lambda>_ w.
       let ini_path = d3dx_ini_path env w in
       and_then (backup ini_path) (\<lambda>_.
       and_then (\<lambda>w1.
         let src = downloaded_asset_path env;
             dst = importer_path (app_root env) (Importer w1);
             w2 = emit (MoveContents src dst) w1
         in case move_contents env src dst (fs w2) of
              Inl e \<Rightarrow> (Inl e, w2)
            | Inr fs' \<Rightarrow> (Inr (), w2\<lparr>fs := fs'\<rparr>)) (\<lambda>_ w3.
       if \<not> overwrite_ini (Importer w3) then restore ini_path w3 else (Inr (), w3))) w))"

definition project_settings ::
  "'d IniHandler \<Rightarrow> ModelImporterConfig \<Rightarrow> MigotoConfig \<Rightarrow> 'd \<Rightarrow> error + 'd"
where
  \<comment> \<open>The five calls of \<open>set_default_ini_values\<close> in \<open>update_d3dx_ini\<close>, in their order.\<close>
  "project_settings h config migoto ini =
     on_success (set_default_ini_values h config ini ''core'' Constant PNone) (\<lambda>ini.
     on_success (set_default_ini_values h config ini ''debug_logging'' Bool
                   (PBool (debug_logging migoto))) (\<lambda>ini.
     on_success (set_default_ini_values h config ini ''mute_warnings'' Bool
                   (PBool (mute_warnings migoto))) (\<lambda>ini.
     on_success (set_default_ini_values h config ini ''enable_hunting'' Bool
                   (PBool (enable_hunting migoto))) (\<lambda>ini.
     set_default_ini_values h config ini ''dump_shaders'' Bool
                   (PBool (dump_shaders migoto))))))"

definition update_d3dx_ini :: "'d IniHandler \<Rightarrow> integration \<Rightarrow> unit prog" where
  "update_d3dx_ini h env =
     and_then (fire (StatusUpdate ''Updating d3dx.ini...'')) (\<lambda>_ w.
       let ini_path = d3dx_ini_path env w in
       and_then
         (lift
            (on_success (read_text (fs w) ini_path) (\<lambda>text.
             on_success (from_file h text) (\<lambda>ini.
             project_settings h (Importer w) (Migoto w) ini))))
         (\<lambda>ini w.
            if is_modified h ini then
              (let w1 = emit (Write ini_path) w in
               case write_text (fs w1) ini_path (to_string h ini) of
                 Inl e \<Rightarrow> (Inl e, w1)
               | Inr fs' \<Rightarrow> (Inr (), w1\<lparr>fs := fs'\<rparr>))
            else (Inr (), w)) w)"

definition restore_dialog :: "integration \<Rightarrow> path \<Rightarrow> event" where
  \<comment> \<open>The \<open>ShowError\<close> event of \<open>validate_package_files\<close>: modal, with the buttons
      \<open>Restore\<close> and \<open>Cancel\<close> and the message about the missing file.\<close>
  "restore_dialog env ini_path =
     ShowError True ''Restore'' ''Cancel''
       (active_importer env @ '' installation is damaged!'' @ [CHR 0x0A] @
        ''Details: Missing critical file: '' @ name_of ini_path @ ''!'' @ [CHR 0x0A] @
        ''Would you like to restore '' @ active_importer env @ '' automatically?'')"

definition validate_package_files :: "integration \<Rightarrow> unit prog" where
  "validate_package_files env w =
     (let ini_path = d3dx_ini_path env w in
      if \<not> exists (fs w) ini_path then
        and_then (call env (restore_dialog env ini_path))
          (\<lambda>user_requested_restore.
             if \<not> user_requested_restore then raise (CorruptInstallation (name_of ini_path))
             else fire (Update True True True [metadata_package_name env])) w
      else (Inr (), w))"

definition locate_game :: "integration \<Rightarrow> path \<Rightarrow> (path \<times> path) prog" where
  \<comment> \<open>The two statements that \<open>start_game\<close> runs on the configured folder and again on the
      autodetected one:
      \<^verbatim>\<open>game_path = self.validate_game_path(folder)\<close>,
      \<^verbatim>\<open>game_exe_path = self.validate_game_exe_path(game_path)\<close>.\<close>
  "locate_game env folder =
     and_then (\<lambda>w. (validate_game_path (fs w) folder, w)) (\<lambda>game_path.
     and_then (validate_game_exe_path env game_path) (\<lambda>game_exe_path.
     ret (game_path, game_exe_path)))"

definition set_game_folder :: "path \<Rightarrow> world \<Rightarrow> world" where
  \<comment> \<open>\<^verbatim>\<open>Config.Active.Importer.game_folder = str(game_folder)\<close>\<close>
  "set_game_folder folder w = w\<lparr>Importer := (Importer w)\<lparr>game_folder := folder\<rparr>\<rparr>"

definition start_game :: "'d IniHandler \<Rightarrow> integration \<Rightarrow> unit prog" where
  "start_game h env =
     and_then (validate_package_files env) (\<lambda>_.
     and_then (update_d3dx_ini h env) (\<lambda>_.
     and_then
       (try_except
          (and_then (\<lambda>w. locate_game env (game_folder (Importer w)) w) (\<lambda>located.
           ret (Some located)))
          (\<lambda>e.
             try_except
               (and_then (autodetect_game_folder env) (\<lambda>folder.
                and_then (locate_game env folder) (\<lambda>located.
                and_then (\<lambda>w. (Inr (), set_game_folder folder w)) (\<lambda>_.
                ret (Some located)))))
               (\<lambda>e. and_then (fire OpenSettings) (\<lambda>_. ret None))))
       (\<lambda>resolved.
          case resolved of
            None \<Rightarrow> ret ()
          | Some (game_path, game_exe_path) \<Rightarrow>
              and_then (initialize_game_launch env game_path) (\<lambda>_.
              fire (StartAndInject game_exe_path)))))"

section \<open>The writes of a projection\<close>

text \<open>
  What \<open>set_default_ini_values\<close> asks of the document, taken apart from the document: the
  list of \<open>(section, option, value)\<close> triples that one call, and the five calls of
  \<open>update_d3dx_ini\<close>, write in their order (none when a value cannot be resolved), and
  the writes applied one after the other. A list of writes is consistent when it gives no
  section and option two different values.
\<close>

fun option_writes ::
  "SettingType \<Rightarrow> pyval \<Rightarrow> string \<Rightarrow> (string \<times> pyval) list \<Rightarrow> (string \<times> string \<times> pyval) list option"
where
  "option_writes setting_type setting_value section [] = Some []"
| "option_writes setting_type setting_value section ((option, vals) # rest) =
     (case select_value setting_type setting_value vals of
        Inl e \<Rightarrow> None
      | Inr (key, v) \<Rightarrow>
          if v = PNone then None
          else map_option (Cons (section, option, v))
                 (option_writes setting_type setting_value section rest))"

fun section_writes ::
  "SettingType \<Rightarrow> pyval \<Rightarrow> (string \<times> (string \<times> pyval) list) list
    \<Rightarrow> (string \<times> string \<times> pyval) list option"
where
  "section_writes setting_type setting_value [] = Some []"
| "section_writes setting_type setting_value ((section, options) # rest) =
     (case option_writes setting_type setting_value section options of
        None \<Rightarrow> None
      | Some ws \<Rightarrow> map_option (append ws) (section_writes setting_type setting_value rest))"

definition setting_writes ::
  "ModelImporterConfig \<Rightarrow> string \<Rightarrow> SettingType \<Rightarrow> pyval \<Rightarrow> (string \<times> string \<times> pyval) list option"
where
  "setting_writes config setting_name setting_type setting_value =
     (case map_of (d3dx_ini config) setting_name of
        None \<Rightarrow> None
      | Some settings \<Rightarrow> section_writes setting_type setting_value settings)"

definition planned_writes ::
  "ModelImporterConfig \<Rightarrow> MigotoConfig \<Rightarrow> (string \<times> string \<times> pyval) list option"
where
  "planned_writes config migoto =
     Option.bind (setting_writes config ''core'' Constant PNone) (\<lambda>a.
     Option.bind (setting_writes config ''debug_logging'' Bool (PBool (debug_logging migoto))) (\<lambda>b.
     Option.bind (setting_writes config ''mute_warnings'' Bool (PBool (mute_warnings migoto))) (\<lambda>c.
     Option.bind (setting_writes config ''enable_hunting'' Bool (PBool (enable_hunting migoto))) (\<lambda>d.
     Option.bind (setting_writes config ''dump_shaders'' Bool (PBool (dump_shaders migoto))) (\<lambda>e.
     Some (a @ b @ c @ d @ e))))))"

fun apply_writes :: "'d IniHandler \<Rightarrow> (string \<times> string \<times> pyval) list \<Rightarrow> 'd \<Rightarrow> 'd option" where
  "apply_writes h [] d = Some d"
| "apply_writes h ((section, option, v) # ws) d =
     (case set_option h d section option v of
        Inl e \<Rightarrow> None
      | Inr d' \<Rightarrow> apply_writes h ws d')"

definition consistent :: "(string \<times> string \<times> pyval) list \<Rightarrow> bool" where
  "consistent ws \<longleftrightarrow>
     (\<forall>(s, opt, v) \<in> set ws. \<forall>(s', opt', v') \<in> set ws. s = s' \<and> opt = opt' \<longrightarrow> v = v')"

text \<open>
  What is asked of an INI handler, with \<open>holds d section option value\<close> saying that the
  document has the option set to the value: a document just read is not modified; writing
  a value that the document already holds returns the document as it is; after a write
  the document holds the value, and what it held for other options it still holds. A
  written document reads back when the text it serialises to parses again to a document
  holding the same values.
\<close>

definition lawful :: "'d IniHandler \<Rightarrow> ('d \<Rightarrow> string \<Rightarrow> string \<Rightarrow> pyval \<Rightarrow> bool) \<Rightarrow> bool" where
  "lawful h holds \<longleftrightarrow>
     (\<forall>text d. from_file h text = Inr d \<longrightarrow> \<not> is_modified h d) \<and>
     (\<forall>d s opt v. holds d s opt v \<longrightarrow> set_option h d s opt v = Inr d) \<and>
     (\<forall>d s opt v d'. set_option h d s opt v = Inr d' \<longrightarrow>
        holds d' s opt v \<and>
        (\<forall>s' opt' v'. (s', opt') \<noteq> (s, opt) \<and> holds d s' opt' v' \<longrightarrow> holds d' s' opt' v'))"

definition reads_back :: "'d IniHandler \<Rightarrow> ('d \<Rightarrow> string \<Rightarrow> string \<Rightarrow> pyval \<Rightarrow> bool) \<Rightarrow> 'd \<Rightarrow> bool" where
  "reads_back h holds d \<longleftrightarrow>
     (\<exists>d'. from_file h (to_string h d) = Inr d' \<and>
           (\<forall>s opt v. holds d s opt v \<longrightarrow> holds d' s opt v))"

section \<open>An INI document\<close>

text \<open>
  Modelled from the spec: \<open>IniHandler\<close> is not among the sources. Section 2 of the spec has
  it parse and serialise "an INI-like text format preserving comments and option order"
  with "get/set of a \<open>[section] option = value\<close> triple", section 4.1 has the document
  track "whether it was modified", and section 6 gives the file as
  "\<open>[section]\<close>, \<open>option = value\<close>" lines with comments kept verbatim and values that
  are strings, integers or floats. The document is the list of the file's lines; a write
  replaces the value of the option in the first section of that name, or adds the option
  (and the section) when it is not there, and the document is modified once a write has
  changed a line.
\<close>

datatype ini_line = SectionLine string | OptionLine string string | OtherLine string

record ini_document =
  ini_lines :: "ini_line list"
  ini_modified :: bool

fun digits :: "nat \<Rightarrow> string" where
  "digits n =
     (if n < 10 then [char_of (48 + n)] else digits (n div 10) @ [char_of (48 + n mod 10)])"

definition py_str :: "pyval \<Rightarrow> string option" where
  \<comment> \<open>Modelled from the spec: the text of a value in the file, which is \<open>str\<close> of it;
      \<open>None\<close> and a dictionary are not values of an INI file.\<close>
  "py_str v =
     (case v of
        PNone \<Rightarrow> None
      | PBool b \<Rightarrow> Some (if b then ''True'' else ''False'')
      | PInt i \<Rightarrow> Some (if i < 0 then CHR ''-'' # digits (nat (- i)) else digits (nat i))
      | PFloat r \<Rightarrow> Some r
      | PStr s \<Rightarrow> Some s
      | PDict _ \<Rightarrow> None)"

fun set_in_section :: "string \<Rightarrow> string \<Rightarrow> ini_line list \<Rightarrow> ini_line list" where
  \<comment> \<open>Modelled from the spec: the write inside a section, up to the next section line.\<close>
  "set_in_section opt v [] = [OptionLine opt v]"
| "set_in_section opt v (SectionLine t # rest) = OptionLine opt v # SectionLine t # rest"
| "set_in_section opt v (OptionLine opt' v' # rest) =
     (if opt' = opt then OptionLine opt v # rest
      else OptionLine opt' v' # set_in_section opt v rest)"
| "set_in_section opt v (OtherLine l # rest) = OtherLine l # set_in_section opt v rest"

fun set_lines :: "string \<Rightarrow> string \<Rightarrow> string \<Rightarrow> ini_line list \<Rightarrow> ini_line list" where
  \<comment> \<open>Modelled from the spec: the write of \<open>[section] option = value\<close> into the lines.\<close>
  "set_lines sec opt v [] = [SectionLine sec, OptionLine opt v]"
| "set_lines sec opt v (SectionLine t # rest) =
     (if t = sec then SectionLine t # set_in_section opt v rest
      else SectionLine t # set_lines sec opt v rest)"
| "set_lines sec opt v (OptionLine opt' v' # rest) = OptionLine opt' v' # set_lines sec opt v rest"
| "set_lines sec opt v (OtherLine l # rest) = OtherLine l # set_lines sec opt v rest"

fun get_in_section :: "string \<Rightarrow> ini_line list \<Rightarrow> string option" where
  \<comment> \<open>Modelled from the spec: the read inside a section.\<close>
  "get_in_section opt [] = None"
| "get_in_section opt (SectionLine t # rest) = None"
| "get_in_section opt (OptionLine opt' v' # rest) =
     (if opt' = opt then Some v' else get_in_section opt rest)"
| "get_in_section opt (OtherLine l # rest) = get_in_section opt rest"

fun get_lines :: "string \<Rightarrow> string \<Rightarrow> ini_line list \<Rightarrow> string option" where
  \<comment> \<open>Modelled from the spec: the read of \<open>[section] option\<close> from the lines.\<close>
  "get_lines sec opt [] = None"
| "get_lines sec opt (SectionLine t # rest) =
     (if t = sec then get_in_section opt rest else get_lines sec opt rest)"
| "get_lines sec opt (OptionLine opt' v' # rest) = get_lines sec opt rest"
| "get_lines sec opt (OtherLine l # rest) = get_lines sec opt rest"

fun split_lines :: "string \<Rightarrow> string list" where
  "split_lines [] = [[]]"
| "split_lines (c # cs) =
     (if c = CHR 0x0A then [] # split_lines cs
      else case split_lines cs of [] \<Rightarrow> [[c]] | l # ls \<Rightarrow> (c # l) # ls)"

fun join_lines :: "string list \<Rightarrow> string" where
  "join_lines [] = []"
| "join_lines [l] = l"
| "join_lines (l # ls) = l @ [CHR 0x0A] @ join_lines ls"

definition strip :: "string \<Rightarrow> string" where
  "strip s =
     (let blank = (\<lambda>c. c = CHR '' '' \<or> c = CHR 0x09)
      in rev (dropWhile blank (rev (dropWhile blank s))))"

definition parse_line :: "string \<Rightarrow> ini_line" where
  \<comment> \<open>Modelled from the spec: a section header, a comment (kept verbatim), an option with
      its value, or any other line (kept verbatim).\<close>
  "parse_line l =
     (let t = strip l in
      if t \<noteq> [] \<and> hd t = CHR ''['' \<and> last t = CHR '']'' then SectionLine (butlast (tl t))
      else if t \<noteq> [] \<and> hd t = CHR '';'' then OtherLine l
      else if CHR ''='' \<in> set l then
        OptionLine (strip (takeWhile (\<lambda>c. c \<noteq> CHR ''='') l))
                   (strip (tl (dropWhile (\<lambda>c. c \<noteq> CHR ''='') l)))
      else OtherLine l)"

definition render_line :: "ini_line \<Rightarrow> string" where
  "render_line l =
     (case l of
        SectionLine s \<Rightarrow> ''['' @ s @ '']''
      | OptionLine opt v \<Rightarrow> opt @ '' = '' @ v
      | OtherLine t \<Rightarrow> t)"

definition spec_ini :: "ini_document IniHandler" where
  \<comment> \<open>Modelled from the spec: the handler of the documents above. Reading a text gives an
      unmodified document; a write that changes a line marks it modified.\<close>
  "spec_ini =
     \<lparr>from_file = (\<lambda>text. Inr \<lparr>ini_lines = map parse_line (split_lines text),
                                ini_modified = False\<rparr>),
      set_option = (\<lambda>d sec opt v.
         case py_str v of
           None \<Rightarrow> Inl TypeError
         | Some text \<Rightarrow>
             (let ls = set_lines sec opt text (ini_lines d)
              in Inr \<lparr>ini_lines = ls, ini_modified = (ini_modified d \<or> ls \<noteq> ini_lines d)\<rparr>)),
      is_modified = ini_modified,
      to_string = (\<lambda>d. join_lines (map render_line (ini_lines d)))\<rparr>"

definition spec_holds :: "ini_document \<Rightarrow> string \<Rightarrow> string \<Rightarrow> pyval \<Rightarrow> bool" where
  \<comment> \<open>Modelled from the spec: the document has \<open>[section] option\<close> set to the value.\<close>
  "spec_holds d sec opt v \<longleftrightarrow>
     (case py_str v of None \<Rightarrow> False | Some text \<Rightarrow> get_lines sec opt (ini_lines d) = Some text)"

section \<open>Concrete inputs\<close>

text \<open>
  An installation under \<open>C:\XXMI\<close> with the importer in the relative folder \<open>WWMI\<close>, a
  game under \<open>D:\Games\Client\<close>, and an integration that finds the game there.
\<close>

definition example_root :: path where
  "example_root = Path ''C:'' [CHR 0x5C] [''XXMI'']"

definition example_ini :: path where
  "example_ini = Path ''C:'' [CHR 0x5C] [''XXMI'', ''WWMI'', ''d3dx.ini'']"

definition example_backups :: path where
  "example_backups = Path ''C:'' [CHR 0x5C] [''XXMI'', ''Backups'', ''WWMI 2024-05-01 12-00-00'']"

definition example_game :: path where
  "example_game = Path ''D:'' [CHR 0x5C] [''Games'', ''Client'']"

definition example_config :: ModelImporterConfig where
  "example_config =
     \<lparr>package_name = ''WWMI'',
      importer_folder = Path [] [] [''WWMI''],
      game_folder = Path [] [] [''relative'', ''path''],
      launcher_theme = ''Default'',
      overwrite_ini = False,
      d3dx_ini =
        [(''core'', [(''Loader'', [(''loader'', PStr ''XXMI Launcher.exe'')])]),
         (''debug_logging'',
            [(''Logging'', [(''calls'', PDict [(''on'', PInt 1), (''off'', PInt 0)])])]),
         (''mute_warnings'',
            [(''Logging'', [(''show_warnings'', PDict [(''on'', PInt 0), (''off'', PInt 1)])])]),
         (''enable_hunting'',
            [(''Hunting'', [(''hunting'', PDict [(''on'', PInt 2), (''off'', PInt 0)])])]),
         (''dump_shaders'',
            [(''Hunting'', [(''marking_actions'',
                PDict [(''on'', PStr ''clipboard hlsl''), (''off'', PStr ''clipboard'')])])])]\<rparr>"

definition example_world :: world where
  "example_world =
     \<lparr>fs = [Path ''C:'' [CHR 0x5C] [''XXMI'', ''WWMI''] \<mapsto> Dir,
             example_ini \<mapsto> File ''[Loader]'',
             example_game \<mapsto> Dir,
             child example_game ''Client.exe'' \<mapsto> File ''MZ''],
      trace = [],
      backups_path = None,
      Importer = example_config,
      Migoto = \<lparr>debug_logging = False, mute_warnings = True, enable_hunting = False,
                 dump_shaders = False\<rparr>,
      now = ''2024-05-01 12-00-00''\<rparr>"

definition example_env :: integration where
  "example_env =
     \<lparr>app_root = example_root,
      app_backups = child example_root ''Backups'',
      metadata_package_name = ''WWMI'',
      active_importer = ''WWMI'',
      downloaded_asset_path = child example_root ''Temp'',
      answer = (\<lambda>_. True),
      move_contents = (\<lambda>src dst files. Inr files),
      validate_game_exe_path =
        (\<lambda>game_path w.
           if exists (fs w) (child game_path ''Client.exe'')
           then (Inr (child game_path ''Client.exe''), w)
           else (Inl (OtherError ''Game executable not found!''), w)),
      autodetect_game_folder = ret example_game,
      initialize_game_launch = (\<lambda>_. ret ())\<rparr>"

definition example_session :: world where
  \<comment> \<open>The example after \<open>initialize_backup\<close>.\<close>
  "example_session =
     initialize_backup (app_backups example_env) (metadata_package_name example_env) example_world"

definition example_damaged :: world where
  \<comment> \<open>The example with \<open>d3dx.ini\<close> deleted.\<close>
  "example_damaged = example_world\<lparr>fs := (fs example_world)(example_ini := None)\<rparr>"

definition example_incomplete :: ModelImporterConfig where
  \<comment> \<open>A table whose \<open>debug_logging\<close> entry has no \<open>off\<close> branch.\<close>
  "example_incomplete =
     example_config\<lparr>d3dx_ini :=
       [(''debug_logging'', [(''Logging'', [(''calls'', PDict [(''on'', PInt 1)])])])]\<rparr>"



definition example_decline :: integration where
  \<comment> \<open>The example with a user who answers \<open>Cancel\<close>.\<close>
  "example_decline = example_env\<lparr>answer := (\<lambda>_. False)\<rparr>"

definition example_read :: ini_document where
  \<comment> \<open>The document read from the \<open>d3dx.ini\<close> of the example.\<close>
  "example_read = \<lparr>ini_lines = [SectionLine ''Loader''], ini_modified = False\<rparr>"

definition example_written :: ini_document where
  \<comment> \<open>The document after the five projections of the example.\<close>
  "example_written =
     \<lparr>ini_lines =
        [SectionLine ''Loader'', OptionLine ''loader'' ''XXMI Launcher.exe'',
         SectionLine ''Logging'', OptionLine ''calls'' ''0'', OptionLine ''show_warnings'' ''0'',
         SectionLine ''Hunting'', OptionLine ''hunting'' ''0'',
         OptionLine ''marking_actions'' ''clipboard''],
      ini_modified = True\<rparr>"

definition example_conflict :: world where
  \<comment> \<open>The example with a table in which \<open>core\<close> and \<open>debug_logging\<close> write the same option.\<close>
  "example_conflict =
     example_world\<lparr>Importer := example_config\<lparr>d3dx_ini :=
       [(''core'', [(''Logging'', [(''calls'', PInt 1)])]),
        (''debug_logging'',
           [(''Logging'', [(''calls'', PDict [(''on'', PInt 1), (''off'', PInt 0)])])]),
        (''mute_warnings'', []),
        (''enable_hunting'', []),
        (''dump_shaders'', [])]\<rparr>\<rparr>"

definition example_conflict_once :: world where
  \<comment> \<open>The state after one \<open>update_d3dx_ini\<close> on it.\<close>
  "example_conflict_once = snd (update_d3dx_ini spec_ini example_env example_conflict)"

section \<open>Auxiliary facts\<close>

lemma name_of_child: "n \<noteq> [] \<Longrightarrow> name_of (child p n) = n"
proof -
  assume "n \<noteq> []"
  have "name_of (Path (drive p) (root p) (parts p @ [n])) = last (parts p @ [n])"
    by (cases "parts p @ [n]") (simp_all add: name_of_def)
  with \<open>n \<noteq> []\<close> show ?thesis by (simp add: child_def)
qed

lemma emit_simps [simp]:
  "fs (emit x w) = fs w" "backups_path (emit x w) = backups_path w"
  "Importer (emit x w) = Importer w" "Migoto (emit x w) = Migoto w" "now (emit x w) = now w"
  "trace (emit x w) = trace w @ [x]"
  by (simp_all add: emit_def)






lemma bool_selects_branch:
  "map_of kvs (if truthy v then ''on'' else ''off'') = Some x \<Longrightarrow>
   select_value Bool v (PDict kvs) = Inr (PStr (if truthy v then ''on'' else ''off''), x)"
  by (simp add: select_value_def subscript_def Let_def)

lemma missing_setting:
  "map_of (d3dx_ini config) name = None \<Longrightarrow>
   set_default_ini_values h config ini name setting_type v = Inl (MissingSetting name)"
  by (simp add: set_default_ini_values_def)

lemma apply_writes_append:
  "apply_writes h (a @ b) d = Option.bind (apply_writes h a d) (apply_writes h b)"
  by (induction a arbitrary: d) (auto split: sum.splits)

lemma set_options_writes:
  "set_options h ty sv sec opts d = Inr d' \<longleftrightarrow>
     (\<exists>ws. option_writes ty sv sec opts = Some ws \<and> apply_writes h ws d = Some d')"
proof (induction opts arbitrary: d)
  case Nil
  show ?case by auto
next
  case (Cons a opts)
  obtain opt vals where a: "a = (opt, vals)" by (cases a)
  show ?case
  proof (cases "select_value ty sv vals")
    case (Inl e)
    then show ?thesis by (simp add: a)
  next
    case (Inr kv)
    obtain key v where kv: "kv = (key, v)" by (cases kv)
    show ?thesis
    proof (cases "v = PNone")
      case True
      with Inr kv show ?thesis by (simp add: a)
    next
      case False
      show ?thesis
      proof (cases "set_option h d sec opt v")
        case (Inl e)
        with Inr kv False show ?thesis by (auto simp: a)
      next
        case d1: (Inr d1)
        with Inr kv False Cons.IH [of d1] show ?thesis by (auto simp: a)
      qed
    qed
  qed
qed

lemma set_sections_writes:
  "set_sections h ty sv secs d = Inr d' \<longleftrightarrow>
     (\<exists>ws. section_writes ty sv secs = Some ws \<and> apply_writes h ws d = Some d')"
proof (induction secs arbitrary: d)
  case Nil
  show ?case by auto
next
  case (Cons a secs)
  obtain sec opts where a: "a = (sec, opts)" by (cases a)
  show ?case
  proof (cases "set_options h ty sv sec opts d")
    case (Inl e)
    have no: "apply_writes h ws d = None" if "option_writes ty sv sec opts = Some ws" for ws
    proof (cases "apply_writes h ws d")
      case None
      then show ?thesis .
    next
      case (Some d1)
      with that have "set_options h ty sv sec opts d = Inr d1"
        using set_options_writes [of h ty sv sec opts d d1] by blast
      with Inl show ?thesis by simp
    qed
    with Inl show ?thesis
      by (auto simp: a apply_writes_append split: option.splits)
  next
    case (Inr d1)
    then obtain ws1 where ws1: "option_writes ty sv sec opts = Some ws1"
      "apply_writes h ws1 d = Some d1"
      using set_options_writes [of h ty sv sec opts d d1] by auto
    with Inr Cons.IH [of d1] show ?thesis
      by (auto simp: a apply_writes_append)
  qed
qed

lemma set_default_writes:
  "set_default_ini_values h config d name ty sv = Inr d' \<longleftrightarrow>
     (\<exists>ws. setting_writes config name ty sv = Some ws \<and> apply_writes h ws d = Some d')"
  by (simp add: set_default_ini_values_def setting_writes_def set_sections_writes
      split: option.splits)

lemma on_success_Inr:
  "on_success r f = Inr y \<longleftrightarrow> (\<exists>x. r = Inr x \<and> f x = Inr y)"
  by (cases r) (simp_all add: on_success_def)

lemma project_settings_writes:
  "project_settings h config migoto d = Inr d' \<longleftrightarrow>
     (\<exists>ws. planned_writes config migoto = Some ws \<and> apply_writes h ws d = Some d')"
  unfolding project_settings_def planned_writes_def on_success_Inr set_default_writes
  by (auto simp: apply_writes_append Option.bind_eq_Some_conv)

lemma lawfulD:
  assumes "lawful h holds"
  shows "from_file h text = Inr d \<Longrightarrow> \<not> is_modified h d"
    and "holds d s opt v \<Longrightarrow> set_option h d s opt v = Inr d"
    and "set_option h d s opt v = Inr d' \<Longrightarrow> holds d' s opt v"
    and "set_option h d s opt v = Inr d' \<Longrightarrow> (s', opt') \<noteq> (s, opt) \<Longrightarrow>
         holds d s' opt' v' \<Longrightarrow> holds d' s' opt' v'"
  using assms unfolding lawful_def by blast+

lemma apply_writes_keeps:
  assumes "lawful h holds" and "apply_writes h ws d = Some d'" and "holds d s opt v"
    and "\<forall>v'. (s, opt, v') \<in> set ws \<longrightarrow> v' = v"
  shows "holds d' s opt v"
  using assms(2-)
proof (induction ws arbitrary: d)
  case Nil
  then show ?case by simp
next
  case (Cons a ws)
  obtain s1 o1 v1 where a: "a = (s1, o1, v1)" by (cases a)
  from Cons.prems(1) obtain d1 where d1: "set_option h d s1 o1 v1 = Inr d1"
    "apply_writes h ws d1 = Some d'"
    by (auto simp: a split: sum.splits)
  have "holds d1 s opt v"
  proof (cases "(s, opt) = (s1, o1)")
    case True
    with Cons.prems(3) have "v1 = v" by (auto simp: a)
    with True d1(1) lawfulD(3) [OF assms(1)] show ?thesis by blast
  next
    case False
    with d1(1) Cons.prems(2) lawfulD(4) [OF assms(1)] show ?thesis by blast
  qed
  with Cons.IH [OF d1(2)] Cons.prems(3) show ?case by simp
qed

lemma apply_writes_holds:
  assumes "lawful h holds" and "apply_writes h ws d = Some d'" and "consistent ws"
    and "(s, opt, v) \<in> set ws"
  shows "holds d' s opt v"
  using assms(2-)
proof (induction ws arbitrary: d)
  case Nil
  then show ?case by simp
next
  case (Cons a ws)
  obtain s1 o1 v1 where a: "a = (s1, o1, v1)" by (cases a)
  from Cons.prems(1) obtain d1 where d1: "set_option h d s1 o1 v1 = Inr d1"
    "apply_writes h ws d1 = Some d'"
    by (auto simp: a split: sum.splits)
  from Cons.prems(2) have c: "consistent ws" by (auto simp: consistent_def)
  show ?case
  proof (cases "(s, opt, v) \<in> set ws")
    case True
    from Cons.IH [OF d1(2) c True] show ?thesis .
  next
    case False
    with Cons.prems(3) have eq: "s1 = s" "o1 = opt" "v1 = v" by (auto simp: a)
    from d1(1) have "holds d1 s opt v" unfolding eq by (rule lawfulD(3) [OF assms(1)])
    moreover from Cons.prems(2) have "\<forall>v'. (s, opt, v') \<in> set ws \<longrightarrow> v' = v"
      by (auto simp: consistent_def a eq)
    ultimately show ?thesis using apply_writes_keeps [OF assms(1) d1(2)] by blast
  qed
qed

lemma apply_writes_fixed:
  assumes "lawful h holds" and "\<forall>(s, opt, v) \<in> set ws. holds d s opt v"
  shows "apply_writes h ws d = Some d"
  using assms(2)
proof (induction ws)
  case Nil
  show ?case by simp
next
  case (Cons a ws)
  obtain s1 o1 v1 where a: "a = (s1, o1, v1)" by (cases a)
  from Cons.prems have "holds d s1 o1 v1" by (simp add: a)
  then have "set_option h d s1 o1 v1 = Inr d" by (rule lawfulD(2) [OF assms(1)])
  with Cons show ?case by (simp add: a)
qed

lemma write_text_result:
  "write_text files p content = Inr files' \<Longrightarrow> files' = files(p \<mapsto> File content)"
  by (auto simp: write_text_def split: option.splits node.splits if_splits)

lemma update_d3dx_ini_steps:
  assumes "read_text (fs w) (d3dx_ini_path env w) = Inr text"
    and "from_file h text = Inr d0"
    and "project_settings h (Importer w) (Migoto w) d0 = Inr d"
  shows "update_d3dx_ini h env w =
           (let w0 = emit (Fire (StatusUpdate ''Updating d3dx.ini...'')) w in
            if is_modified h d then
              (case write_text (fs w) (d3dx_ini_path env w) (to_string h d) of
                 Inl e \<Rightarrow> (Inl e, emit (Write (d3dx_ini_path env w)) w0)
               | Inr fs' \<Rightarrow> (Inr (), emit (Write (d3dx_ini_path env w)) w0\<lparr>fs := fs'\<rparr>))
            else (Inr (), w0))"
  using assms
  by (simp add: update_d3dx_ini_def and_then_def fire_def lift_def on_success_def Let_def
      d3dx_ini_path_def split: sum.splits)


lemma set_in_section_same:
  "get_in_section opt ls = Some v \<Longrightarrow> set_in_section opt v ls = ls"
  by (induction opt v ls rule: set_in_section.induct) (auto split: if_splits)

lemma set_lines_same:
  "get_lines sec opt ls = Some v \<Longrightarrow> set_lines sec opt v ls = ls"
  by (induction sec opt v ls rule: set_lines.induct) (auto split: if_splits simp: set_in_section_same)

lemma get_set_in_section:
  "get_in_section opt' (set_in_section opt v ls) =
     (if opt' = opt then Some v else get_in_section opt' ls)"
  by (induction opt v ls rule: set_in_section.induct) auto

lemma get_lines_set_in_section:
  "get_lines sec opt' (set_in_section opt v ls) = get_lines sec opt' ls"
  by (induction opt v ls rule: set_in_section.induct) auto

lemma get_in_section_set_lines:
  "get_in_section opt' (set_lines sec opt v ls) = get_in_section opt' ls"
  by (induction sec opt v ls rule: set_lines.induct) auto

lemma get_set_lines:
  "get_lines sec' opt' (set_lines sec opt v ls) =
     (if sec' = sec \<and> opt' = opt then Some v else get_lines sec' opt' ls)"
  by (induction sec opt v ls rule: set_lines.induct)
    (auto simp: get_set_in_section get_lines_set_in_section get_in_section_set_lines)

lemma spec_ini_lawful: "lawful spec_ini spec_holds"
  unfolding lawful_def
proof (intro conjI allI impI)
  fix content d
  assume "from_file spec_ini content = Inr d"
  then show "\<not> is_modified spec_ini d" by (auto simp: spec_ini_def)
next
  fix d s opt v
  assume "spec_holds d s opt v"
  then show "set_option spec_ini d s opt v = Inr d"
    by (auto simp: spec_ini_def spec_holds_def set_lines_same split: option.splits)
next
  fix d s opt v d'
  assume "set_option spec_ini d s opt v = Inr d'"
  then show "spec_holds d' s opt v"
    by (auto simp: spec_ini_def spec_holds_def get_set_lines Let_def split: option.splits)
next
  fix d s opt v d' s' opt' v'
  assume "set_option spec_ini d s opt v = Inr d'"
    and "(s', opt') \<noteq> (s, opt) \<and> spec_holds d s' opt' v'"
  then show "spec_holds d' s' opt' v'"
    by (auto simp: spec_ini_def spec_holds_def get_set_lines Let_def split: option.splits)
qed

section \<open>Game folder validation: the three checks\<close>

text \<open>
  C1. An absolute path of an existing directory is returned as it is. A path that is not
  absolute fails with \<open>InvalidPath\<close> whatever the filesystem holds (the filesystem is not
  consulted), an absolute path that does not exist fails with \<open>PathNotFound\<close>, and an
  absolute path of an existing file fails with \<open>NotADirectory\<close>: the three checks in this
  order. The input is the path that pathlib parses the string to.
\<close>

theorem validate_game_path_cases:
  "(is_absolute p \<and> files p = Some Dir \<longrightarrow> validate_game_path files p = Inr p) \<and>
   (\<not> is_absolute p \<longrightarrow> validate_game_path files p = Inl InvalidPath) \<and>
   (is_absolute p \<and> files p = None \<longrightarrow> validate_game_path files p = Inl PathNotFound) \<and>
   (is_absolute p \<and> files p = Some (File content) \<longrightarrow>
      validate_game_path files p = Inl NotADirectory)"
  by (simp add: validate_game_path_def exists_def is_dir_def)

theorem validate_game_path_cases_witness:
  "validate_game_path (fs example_world) example_game = Inr example_game \<and>
   validate_game_path (fs example_world) (Path [] [] [''relative'', ''path'']) = Inl InvalidPath \<and>
   validate_game_path (fs example_world) (Path ''D:'' [CHR 0x5C] [''Nowhere'']) = Inl PathNotFound \<and>
   validate_game_path (fs example_world) example_ini = Inl NotADirectory"
proof -
  have 1: "is_absolute example_game \<and> fs example_world example_game = Some Dir"
    by code_simp
  have 2: "\<not> is_absolute (Path [] [] [''relative'', ''path''])"
    by code_simp
  have 3: "is_absolute (Path ''D:'' [CHR 0x5C] [''Nowhere'']) \<and>
           fs example_world (Path ''D:'' [CHR 0x5C] [''Nowhere'']) = None"
    by code_simp
  have 4: "is_absolute example_ini \<and> fs example_world example_ini = Some (File ''[Loader]'')"
    by code_simp
  from 1 2 3 4
    validate_game_path_cases [of example_game "fs example_world"]
    validate_game_path_cases [of "Path [] [] [''relative'', ''path'']" "fs example_world"]
    validate_game_path_cases [of "Path ''D:'' [CHR 0x5C] [''Nowhere'']" "fs example_world"]
    validate_game_path_cases [of example_ini "fs example_world" "''[Loader]''"]
  show ?thesis by blast
qed

section \<open>Backup and restore\<close>

text \<open>
  C6. Let \<open>backup\<close> succeed on a regular file, into a backup root where no directory stands
  under the file's name. The backup leaves the file as it is. A \<open>restore\<close> right after it
  succeeds and the file holds its content from before the backup; when the file has been
  deleted in between, \<open>restore\<close> returns at once, changes nothing, and the file stays
  missing: the guard of \<open>restore\<close> looks at the destination, not at the copy.
\<close>

theorem backup_restore_roundtrip:
  assumes "fs w fp = Some (File content)"
    and "backups_path w = Some bp"
    and "fs w (child bp (name_of fp)) \<noteq> Some Dir"
    and "backup fp w = (Inr (), w1)"
  shows "fs w1 fp = Some (File content) \<and>
         (\<exists>w2. restore fp w1 = (Inr (), w2) \<and> fs w2 fp = Some (File content)) \<and>
         (let deleted = w1\<lparr>fs := (fs w1)(fp := None)\<rparr>
          in restore fp deleted = (Inr (), deleted) \<and> fs deleted fp = None)"
  using assms
  unfolding backup_def restore_def copy2_def verify_path_def emit_def exists_def is_dir_def Let_def
  by (auto split: option.splits node.splits sum.splits if_splits)

theorem backup_restore_roundtrip_witness:
  "backup example_ini example_session = (Inr (), snd (backup example_ini example_session)) \<and>
   (\<exists>w2. restore example_ini (snd (backup example_ini example_session)) = (Inr (), w2) \<and>
         fs w2 example_ini = Some (File ''[Loader]''))"
proof -
  have 1: "fs example_session example_ini = Some (File ''[Loader]'')"
    by code_simp
  have 2: "backups_path example_session = Some example_backups"
    by code_simp
  have 3: "fs example_session (child example_backups (name_of example_ini)) \<noteq> Some Dir"
    by code_simp
  have "fst (backup example_ini example_session) = Inr ()"
    by code_simp
  then have 4: "backup example_ini example_session =
                  (Inr (), snd (backup example_ini example_session))"
    by (simp add: prod_eq_iff)
  from backup_restore_roundtrip [OF 1 2 3 4] 4 show ?thesis by blast
qed

text \<open>
  C8. When the destination exists and the backup root holds nothing under the file's name,
  \<open>restore\<close> does not return quietly: the copy is attempted, it fails with
  \<open>FileNotFoundError\<close> on the missing copy, the error reaches the caller, and the filesystem
  (the destination with it) is as before.
\<close>

theorem restore_without_backup_copy:
  assumes "exists (fs w) fp"
    and "backups_path w = Some bp"
    and "fs w (child bp (name_of fp)) = None"
  shows "restore fp w =
           (Inl (FileNotFoundError (child bp (name_of fp))),
            emit (Copy2 (child bp (name_of fp)) fp) w) \<and>
         fs (snd (restore fp w)) = fs w"
  using assms
  unfolding restore_def copy2_def emit_def exists_def is_dir_def Let_def
  by (auto split: option.splits node.splits sum.splits if_splits)

theorem restore_without_backup_copy_witness:
  "restore example_ini example_session =
     (Inl (FileNotFoundError (child example_backups (name_of example_ini))),
      emit (Copy2 (child example_backups (name_of example_ini)) example_ini) example_session) \<and>
   fs (snd (restore example_ini example_session)) = fs example_session"
proof -
  have 1: "exists (fs example_session) example_ini"
    by code_simp
  have 2: "backups_path example_session = Some example_backups"
    by code_simp
  have 3: "fs example_session (child example_backups (name_of example_ini)) = None"
    by code_simp
  from restore_without_backup_copy [OF 1 2 3] show ?thesis .
qed

text \<open>
  C10. A new package has no backup root. Without one, \<open>backup\<close> of a path that does not
  exist still returns normally and changes nothing, while \<open>backup\<close> and \<open>restore\<close> of a
  path that exists raise before anything is copied.
\<close>

theorem backup_needs_initialize_backup:
  "backups_path (new_package w) = None \<and>
   (backups_path w = None \<and> \<not> exists (fs w) fp \<longrightarrow> backup fp w = (Inr (), w)) \<and>
   (backups_path w = None \<and> exists (fs w) fp \<longrightarrow>
      backup fp w = (Inl NoneTypeError, w) \<and> restore fp w = (Inl NoneTypeError, w))"
  by (simp add: new_package_def backup_def restore_def)

theorem backup_needs_initialize_backup_witness:
  "backup (Path ''D:'' [CHR 0x5C] [''Nowhere'']) (new_package example_world) =
     (Inr (), new_package example_world) \<and>
   backup example_ini (new_package example_world) = (Inl NoneTypeError, new_package example_world) \<and>
   restore example_ini (new_package example_world) = (Inl NoneTypeError, new_package example_world)"
proof -
  have 1: "backups_path (new_package example_world) = None \<and>
           \<not> exists (fs (new_package example_world)) (Path ''D:'' [CHR 0x5C] [''Nowhere''])"
    by code_simp
  have 2: "backups_path (new_package example_world) = None \<and>
           exists (fs (new_package example_world)) example_ini"
    by code_simp
  from 1 2
    backup_needs_initialize_backup
      [of "new_package example_world" "Path ''D:'' [CHR 0x5C] [''Nowhere'']"]
    backup_needs_initialize_backup [of "new_package example_world" example_ini]
  show ?thesis by blast
qed

section \<open>Installation\<close>



text \<open>
  C9. The argument \<open>clean\<close> is not read: with \<open>clean\<close> true and with \<open>clean\<close> false the
  installation returns the same result and leaves the same state, the trace of effects
  included, from every state.
\<close>

theorem install_ignores_clean:
  "install_latest_version env True w = install_latest_version env False w"
  by (simp add: install_latest_version_def)

section \<open>Projecting a setting\<close>

text \<open>
  C3. A \<open>Bool\<close> setting takes the value under \<open>on\<close> when the runtime value is truthy and
  under \<open>off\<close> when it is not, and a setting name that the table does not have raises
  \<open>MissingSetting\<close> (the two lemmas \<open>bool_selects_branch\<close> and \<open>missing_setting\<close>). A
  branch that the dictionary of an option does not have is another matter: the subscript
  \<open>values[key]\<close> raises \<open>KeyError\<close> with the key alone, before the test
  \<open>value is None\<close> that would raise \<open>MissingSettingValue\<close> with section, option and key.
\<close>

theorem absent_key_raises_KeyError:
  assumes "map_of (d3dx_ini config) name = Some ((section, (option, PDict kvs) # options) # sections)"
    and "map_of kvs (if truthy v then ''on'' else ''off'') = None"
  shows "set_default_ini_values h config ini name Bool v =
           Inl (KeyError (PStr (if truthy v then ''on'' else ''off'')))"
  using assms
  by (simp add: set_default_ini_values_def select_value_def subscript_def Let_def)

theorem absent_key_raises_KeyError_witness:
  "set_default_ini_values spec_ini example_incomplete \<lparr>ini_lines = [], ini_modified = False\<rparr>
     ''debug_logging'' Bool (PBool False) = Inl (KeyError (PStr ''off''))"
proof -
  have 1: "map_of (d3dx_ini example_incomplete) ''debug_logging'' =
             Some ((''Logging'', (''calls'', PDict [(''on'', PInt 1)]) # []) # [])"
    by code_simp
  have 2: "map_of [(''on'', PInt 1)] (if truthy (PBool False) then ''on'' else ''off'') = None"
    by code_simp
  have 3: "(if truthy (PBool False) then ''on'' else ''off'') = ''off''"
    by code_simp
  from absent_key_raises_KeyError [OF 1 2] show ?thesis unfolding 3 .
qed

section \<open>Starting the game\<close>

text \<open>
  C2. With \<open>d3dx.ini\<close> missing, \<open>start_game\<close> shows the dialog. When the user declines it
  raises \<open>CorruptInstallation\<close> and nothing more happens. When the user accepts, the
  reinstall request is fired and \<open>validate_package_files\<close> returns, so \<open>start_game\<close> goes
  on to \<open>update_d3dx_ini\<close>: the status update is fired, and opening the file, still
  missing after a request that is only fired, raises \<open>FileNotFoundError\<close> to the caller.
\<close>

theorem start_game_missing_ini:
  assumes "\<not> exists (fs w) (d3dx_ini_path env w)"
  shows "(\<not> answer env (restore_dialog env (d3dx_ini_path env w)) \<longrightarrow>
            start_game h env w =
              (Inl (CorruptInstallation ''d3dx.ini''),
               emit (Call (restore_dialog env (d3dx_ini_path env w))) w)) \<and>
         (answer env (restore_dialog env (d3dx_ini_path env w)) \<longrightarrow>
            start_game h env w =
              (Inl (FileNotFoundError (d3dx_ini_path env w)),
               emit (Fire (StatusUpdate ''Updating d3dx.ini...''))
                 (emit (Fire (Update True True True [metadata_package_name env]))
                    (emit (Call (restore_dialog env (d3dx_ini_path env w))) w))))"
proof -
  have nm: "name_of (d3dx_ini_path env w) = ''d3dx.ini''"
    by (simp add: d3dx_ini_path_def name_of_child)
  have same: "\<And>x y. d3dx_ini_path env (emit x (emit y w)) = d3dx_ini_path env w"
    "\<And>x y z. d3dx_ini_path env (emit x (emit y (emit z w))) = d3dx_ini_path env w"
    by (simp_all add: d3dx_ini_path_def)
  from assms have missing: "fs w (d3dx_ini_path env w) = None"
    by (simp add: exists_def)
  show ?thesis
    using assms missing
    by (simp add: start_game_def validate_package_files_def update_d3dx_ini_def and_then_def
        call_def raise_def fire_def lift_def on_success_def read_text_def nm same Let_def)
qed

theorem start_game_missing_ini_witness:
  "start_game spec_ini example_decline example_damaged =
     (Inl (CorruptInstallation ''d3dx.ini''),
      emit (Call (restore_dialog example_decline (d3dx_ini_path example_decline example_damaged)))
        example_damaged) \<and>
   start_game spec_ini example_env example_damaged =
     (Inl (FileNotFoundError (d3dx_ini_path example_env example_damaged)),
      emit (Fire (StatusUpdate ''Updating d3dx.ini...''))
        (emit (Fire (Update True True True [metadata_package_name example_env]))
           (emit (Call (restore_dialog example_env (d3dx_ini_path example_env example_damaged)))
              example_damaged)))"
proof -
  have 1: "\<not> exists (fs example_damaged) (d3dx_ini_path example_decline example_damaged)"
    "\<not> exists (fs example_damaged) (d3dx_ini_path example_env example_damaged)"
    by code_simp+
  have 2: "\<not> answer example_decline
               (restore_dialog example_decline (d3dx_ini_path example_decline example_damaged))"
    "answer example_env (restore_dialog example_env (d3dx_ini_path example_env example_damaged))"
    by code_simp+
  from start_game_missing_ini [OF 1(1), of spec_ini] start_game_missing_ini [OF 1(2), of spec_ini] 2
  show ?thesis by blast
qed

text \<open>
  C2 as it is stated fails: the launch does not end with the reinstall request: in the example with an accepting
  user the trace goes on with the status update of \<open>update_d3dx_ini\<close>, and the call
  raises.
\<close>

theorem start_game_accept_counterexample:
  "answer example_env (restore_dialog example_env example_ini) \<and>
   fst (start_game spec_ini example_env example_damaged) = Inl (FileNotFoundError example_ini) \<and>
   trace (snd (start_game spec_ini example_env example_damaged)) =
     [Call (restore_dialog example_env example_ini),
      Fire (Update True True True [''WWMI'']),
      Fire (StatusUpdate ''Updating d3dx.ini...'')]"
  by code_simp



section \<open>Updating the INI file twice\<close>

text \<open>
  C5. Let the INI handler be lawful, let the five projections write a consistent list of
  values, and let the first \<open>update_d3dx_ini\<close> succeed, the document it wrote (if it wrote
  one) reading back. Then a second \<open>update_d3dx_ini\<close> from the state the first one left
  returns normally having done nothing but fire the status update: the document it reads
  and projects the settings onto is not modified, so no file is written, and the
  filesystem is as the first call left it.
\<close>

theorem update_d3dx_ini_twice:
  assumes laws: "lawful h holds"
    and plan: "planned_writes (Importer w) (Migoto w) = Some ws" "consistent ws"
    and rd: "read_text (fs w) (d3dx_ini_path env w) = Inr text"
    and ff: "from_file h text = Inr d0"
    and pr: "project_settings h (Importer w) (Migoto w) d0 = Inr d"
    and rb: "is_modified h d \<longrightarrow> reads_back h holds d"
    and first: "update_d3dx_ini h env w = (Inr (), w1)"
  shows "update_d3dx_ini h env w1 =
           (Inr (), emit (Fire (StatusUpdate ''Updating d3dx.ini...'')) w1) \<and>
         (\<exists>text' d0' d'.
            read_text (fs w1) (d3dx_ini_path env w1) = Inr text' \<and>
            from_file h text' = Inr d0' \<and>
            project_settings h (Importer w1) (Migoto w1) d0' = Inr d' \<and>
            \<not> is_modified h d') \<and>
         fs (snd (update_d3dx_ini h env w1)) = fs w1 \<and>
         trace (snd (update_d3dx_ini h env w1)) =
           trace w1 @ [Fire (StatusUpdate ''Updating d3dx.ini...'')]"
proof (cases "is_modified h d")
  case False
  with first have w1: "w1 = emit (Fire (StatusUpdate ''Updating d3dx.ini...'')) w"
    by (simp add: update_d3dx_ini_steps [OF rd ff pr] Let_def)
  have p: "d3dx_ini_path env w1 = d3dx_ini_path env w"
    by (simp add: w1 d3dx_ini_path_def)
  have second: "read_text (fs w1) (d3dx_ini_path env w1) = Inr text"
    "project_settings h (Importer w1) (Migoto w1) d0 = Inr d"
    using rd pr by (simp_all add: p) (simp_all add: w1)
  from update_d3dx_ini_steps [OF second(1) ff second(2)] False
  have eq: "update_d3dx_ini h env w1 =
              (Inr (), emit (Fire (StatusUpdate ''Updating d3dx.ini...'')) w1)"
    by (simp add: Let_def)
  from second ff False
  have "\<exists>text' d0' d'.
          read_text (fs w1) (d3dx_ini_path env w1) = Inr text' \<and>
          from_file h text' = Inr d0' \<and>
          project_settings h (Importer w1) (Migoto w1) d0' = Inr d' \<and>
          \<not> is_modified h d'"
    by blast
  with eq show ?thesis by simp
next
  case True
  with rb obtain d' where d': "from_file h (to_string h d) = Inr d'"
    "\<And>s opt v. holds d s opt v \<Longrightarrow> holds d' s opt v"
    by (auto simp: reads_back_def)
  from first True obtain fs' where wr:
    "write_text (fs w) (d3dx_ini_path env w) (to_string h d) = Inr fs'"
    and w1: "w1 = emit (Write (d3dx_ini_path env w))
                    (emit (Fire (StatusUpdate ''Updating d3dx.ini...'')) w)\<lparr>fs := fs'\<rparr>"
    by (auto simp: update_d3dx_ini_steps [OF rd ff pr] Let_def split: sum.splits)
  have p: "d3dx_ini_path env w1 = d3dx_ini_path env w"
    by (simp add: w1 d3dx_ini_path_def)
  have r1: "read_text (fs w1) (d3dx_ini_path env w1) = Inr (to_string h d)"
    using write_text_result [OF wr] by (simp add: p) (simp add: w1 read_text_def)
  from pr plan(1) have ap: "apply_writes h ws d0 = Some d"
    by (auto simp: project_settings_writes)
  have "\<forall>(s, opt, v) \<in> set ws. holds d' s opt v"
    using apply_writes_holds [OF laws ap plan(2)] d'(2) by auto
  from apply_writes_fixed [OF laws this] plan(1)
  have p1: "project_settings h (Importer w1) (Migoto w1) d' = Inr d'"
    by (auto simp: project_settings_writes w1)
  from d'(1) have clean: "\<not> is_modified h d'" by (rule lawfulD(1) [OF laws])
  with update_d3dx_ini_steps [OF r1 d'(1) p1]
  have eq: "update_d3dx_ini h env w1 =
              (Inr (), emit (Fire (StatusUpdate ''Updating d3dx.ini...'')) w1)"
    by (simp add: Let_def)
  from r1 d'(1) p1 clean
  have "\<exists>text' d0' d'.
          read_text (fs w1) (d3dx_ini_path env w1) = Inr text' \<and>
          from_file h text' = Inr d0' \<and>
          project_settings h (Importer w1) (Migoto w1) d0' = Inr d' \<and>
          \<not> is_modified h d'"
    by blast
  with eq show ?thesis by simp
qed

theorem update_d3dx_ini_twice_witness:
  "update_d3dx_ini spec_ini example_env example_world =
     (Inr (), snd (update_d3dx_ini spec_ini example_env example_world)) \<and>
   is_modified spec_ini example_written \<and>
   update_d3dx_ini spec_ini example_env (snd (update_d3dx_ini spec_ini example_env example_world)) =
     (Inr (),
      emit (Fire (StatusUpdate ''Updating d3dx.ini...''))
        (snd (update_d3dx_ini spec_ini example_env example_world)))"
proof -
  let ?w1 = "snd (update_d3dx_ini spec_ini example_env example_world)"
  let ?ws = "the (planned_writes (Importer example_world) (Migoto example_world))"
  have "planned_writes (Importer example_world) (Migoto example_world) \<noteq> None"
    by code_simp
  then have plan: "planned_writes (Importer example_world) (Migoto example_world) = Some ?ws"
    by simp
  have cons: "consistent ?ws"
    by code_simp
  have rd: "read_text (fs example_world) (d3dx_ini_path example_env example_world) =
              Inr ''[Loader]''"
    by code_simp
  have ff: "from_file spec_ini ''[Loader]'' = Inr example_read"
    by code_simp
  have pr: "project_settings spec_ini (Importer example_world) (Migoto example_world) example_read =
              Inr example_written"
    by code_simp
  have m: "is_modified spec_ini example_written"
    by code_simp
  have again: "from_file spec_ini (to_string spec_ini example_written) =
                Inr (example_written\<lparr>ini_modified := False\<rparr>)"
    by code_simp
  have "reads_back spec_ini spec_holds example_written"
    unfolding reads_back_def
  proof (intro exI conjI allI impI)
    show "from_file spec_ini (to_string spec_ini example_written) =
            Inr (example_written\<lparr>ini_modified := False\<rparr>)"
      by (rule again)
  next
    fix s opt v
    assume "spec_holds example_written s opt v"
    then show "spec_holds (example_written\<lparr>ini_modified := False\<rparr>) s opt v"
      by (simp add: spec_holds_def split: option.splits)
  qed
  then have rb: "is_modified spec_ini example_written \<longrightarrow>
                   reads_back spec_ini spec_holds example_written"
    by simp
  have "fst (update_d3dx_ini spec_ini example_env example_world) = Inr ()"
    by code_simp
  then have first: "update_d3dx_ini spec_ini example_env example_world = (Inr (), ?w1)"
    by (simp add: prod_eq_iff)
  note second = update_d3dx_ini_twice [OF spec_ini_lawful plan cons rd ff pr rb first,
      THEN conjunct1]
  from first m second show ?thesis by (intro conjI)
qed

text \<open>
  C5 as it is stated fails on the example in which \<open>core\<close> writes \<open>[Logging] calls = 1\<close>
  and \<open>debug_logging\<close>, switched off, writes \<open>[Logging] calls = 0\<close>: the second call finds
  \<open>0\<close>, writes \<open>1\<close> and then \<open>0\<close> again, the document is modified, and the file is written
  once more, with the content it had.
\<close>

theorem update_d3dx_ini_twice_counterexample:
  "fst (update_d3dx_ini spec_ini example_env example_conflict) = Inr () \<and>
   fst (update_d3dx_ini spec_ini example_env example_conflict_once) = Inr () \<and>
   trace (snd (update_d3dx_ini spec_ini example_env example_conflict_once)) =
     trace example_conflict_once @
     [Fire (StatusUpdate ''Updating d3dx.ini...''), Write example_ini] \<and>
   fs (snd (update_d3dx_ini spec_ini example_env example_conflict_once)) example_ini =
     fs example_conflict_once example_ini"
  by code_simp

end
